theory Spec2Isabelle
  imports Main
begin

section \<open>The schema model consumed by \<open>tools/codegen/api/types.py\<close>\<close>

text \<open>
  Modelled from the spec: the classes \<open>Argument\<close>, \<open>Return\<close> and \<open>FunctionSchema\<close> come from
  \<open>tools.codegen.model\<close>, which is not part of the sources at hand. The spec gives an argument a
  name, an opaque type descriptor, an optional default (literal text) and a role tag; a return
  a type descriptor; a schema a name, ordered arguments and ordered returns. The is-method flag
  of the spec is the keyword \<open>method\<close> that \<open>CppSignatureGroup.from_schema\<close> receives, here
  \<open>is_method\<close>.
\<close>

datatype role = Plain | Receiver | PrecisionKind | LayoutKind | DeviceKind | PinnedFlag

record Argument =
  arg_name :: string
  arg_type :: string
  arg_default :: "string option"
  arg_role :: role

datatype Return = Return (ret_type: string)

record FunctionSchema =
  fs_name :: string
  fs_arguments :: "Argument list"
  fs_returns :: "Return list"

text \<open>The failures the spec names; every helper that can raise returns \<open>error + 'a\<close>.\<close>

datatype error = SchemaInvariantViolation | PartialResourceOptionsGroup | UnrenderableType

section \<open>Grouping arguments\<close>

datatype ThisArgument = ThisArgument (this_argument: Argument)

record TensorOptionsArguments =
  dtype :: Argument
  layout :: Argument
  device :: Argument
  pin_memory :: Argument

definition TensorOptionsArguments_all :: "TensorOptionsArguments \<Rightarrow> Argument list" where
  "TensorOptionsArguments_all b = [dtype b, layout b, device b, pin_memory b]"

text \<open>\<open>Union[Argument, TensorOptionsArguments, ThisArgument]\<close>, the element type of a grouped
  argument sequence.\<close>

datatype GroupedArgument =
    GArgument Argument
  | GTensorOptions TensorOptionsArguments
  | GThis ThisArgument

section \<open>cpp types\<close>

record CppArgument =
  ca_type :: string
  ca_name :: string
  ca_default :: "string option"
  ca_argument :: "Argument + TensorOptionsArguments"

definition CppArgument_str :: "CppArgument \<Rightarrow> string" where
  "CppArgument_str a =
     (let mb_default = (case ca_default a of None \<Rightarrow> [] | Some d \<Rightarrow> ''='' @ d)
      in ca_type a @ '' '' @ ca_name a @ mb_default)"

definition CppArgument_no_default :: "CppArgument \<Rightarrow> CppArgument" where
  "CppArgument_no_default a =
     \<lparr>ca_type = ca_type a, ca_name = ca_name a, ca_default = None,
      ca_argument = ca_argument a\<rparr>"

definition CppArgument_str_no_default :: "CppArgument \<Rightarrow> string" where
  "CppArgument_str_no_default a = ca_type a @ '' '' @ ca_name a"

text \<open>The closed union \<open>CppArgumentPack\<close>. The tensor-options pack carries the grouped
  argument and the four formals \<open>dtype\<close>, \<open>layout\<close>, \<open>device\<close>, \<open>pin_memory\<close>, in this order.\<close>

datatype CppArgumentPack =
    CppSingleArgumentPack CppArgument
  | CppThisArgumentPack ThisArgument string
  | CppTensorOptionsArgumentPack TensorOptionsArguments
      CppArgument CppArgument CppArgument CppArgument

fun no_default :: "CppArgumentPack \<Rightarrow> CppArgumentPack" where
  "no_default (CppSingleArgumentPack this) = CppSingleArgumentPack (CppArgument_no_default this)"
| "no_default (CppThisArgumentPack t ty) = CppThisArgumentPack t ty"
| "no_default (CppTensorOptionsArgumentPack b dt la de pm) =
     CppTensorOptionsArgumentPack b (CppArgument_no_default dt) (CppArgument_no_default la)
       (CppArgument_no_default de) (CppArgument_no_default pm)"

fun explicit_arguments :: "CppArgumentPack \<Rightarrow> CppArgument list" where
  "explicit_arguments (CppSingleArgumentPack this) = [this]"
| "explicit_arguments (CppThisArgumentPack t ty) = []"
| "explicit_arguments (CppTensorOptionsArgumentPack b dt la de pm) = [dt, la, de, pm]"

record CppSignature =
  cs_func :: FunctionSchema
  cs_argument_packs :: "CppArgumentPack list"
  cs_returns_type :: string

definition CppSignature_arguments :: "CppSignature \<Rightarrow> CppArgument list" where
  "CppSignature_arguments s = concat (map explicit_arguments (cs_argument_packs s))"

text \<open>Python's \<open>sep.join(xs)\<close> on a list of strings.\<close>

fun join :: "string \<Rightarrow> string list \<Rightarrow> string" where
  "join sep [] = []"
| "join sep [x] = x"
| "join sep (x # y # ys) = x @ sep @ join sep (y # ys)"

text \<open>\<open>cpp.name\<close> lives in \<open>tools.codegen.api.cpp\<close>; the renderers take it as a parameter.\<close>

definition decl :: "(FunctionSchema \<Rightarrow> string) \<Rightarrow> CppSignature \<Rightarrow> string" where
  "decl cpp_name s =
     (let cpp_args_str = join '', '' (map CppArgument_str (CppSignature_arguments s))
      in cs_returns_type s @ '' '' @ cpp_name (cs_func s) @ ''('' @ cpp_args_str @ '')'')"

definition defn ::
  "(FunctionSchema \<Rightarrow> string) \<Rightarrow> CppSignature \<Rightarrow> string option \<Rightarrow> string \<Rightarrow> string" where
  "defn cpp_name s name prefix =
     (let cpp_args_str = join '', '' (map CppArgument_str_no_default (CppSignature_arguments s));
          name' = (case name of None \<Rightarrow> prefix @ cpp_name (cs_func s) | Some n \<Rightarrow> n)
      in cs_returns_type s @ '' '' @ name' @ ''('' @ cpp_args_str @ '')'')"

text \<open>A comprehension over helpers that may raise stops at the first exception.\<close>

fun traverse :: "('a \<Rightarrow> error + 'b) \<Rightarrow> 'a list \<Rightarrow> error + 'b list" where
  "traverse f [] = Inr []"
| "traverse f (x # xs) =
     (case f x of
        Inl e \<Rightarrow> Inl e
      | Inr y \<Rightarrow> (case traverse f xs of Inl e \<Rightarrow> Inl e | Inr ys \<Rightarrow> Inr (y # ys)))"

text \<open>\<open>CppSignature._from_grouped_arguments\<close>; \<open>cpp.argument\<close>, \<open>cpp.argument_faithful\<close> and
  \<open>cpp.returns_type\<close> are parameters. The packs are computed before the return type.\<close>

definition from_grouped_arguments ::
  "(GroupedArgument \<Rightarrow> error + CppArgumentPack) \<Rightarrow> (GroupedArgument \<Rightarrow> error + CppArgumentPack) \<Rightarrow>
   (Return list \<Rightarrow> error + string) \<Rightarrow>
   FunctionSchema \<Rightarrow> GroupedArgument list \<Rightarrow> bool \<Rightarrow> error + CppSignature" where
  "from_grouped_arguments argument argument_faithful returns_type func arguments faithful =
     (case (if faithful
            then traverse (\<lambda>a. case argument_faithful a of
                                  Inl e \<Rightarrow> Inl e | Inr p \<Rightarrow> Inr (no_default p)) arguments
            else traverse argument arguments) of
        Inl e \<Rightarrow> Inl e
      | Inr argument_packs \<Rightarrow>
          (case returns_type (fs_returns func) of
             Inl e \<Rightarrow> Inl e
           | Inr rt \<Rightarrow> Inr \<lparr>cs_func = func, cs_argument_packs = argument_packs,
                           cs_returns_type = rt\<rparr>))"

record CppSignatureGroup =
  csg_func :: FunctionSchema
  signature :: CppSignature
  faithful_signature :: "CppSignature option"

fun is_TensorOptionsArguments :: "GroupedArgument \<Rightarrow> bool" where
  "is_TensorOptionsArguments (GTensorOptions b) = True"
| "is_TensorOptionsArguments _ = False"

text \<open>\<open>CppSignatureGroup.from_schema\<close>; \<open>cpp.group_arguments\<close> is a parameter as well. The
  faithful signature is built first.\<close>

definition CppSignatureGroup_from_schema ::
  "(FunctionSchema \<Rightarrow> bool \<Rightarrow> error + GroupedArgument list) \<Rightarrow>
   (GroupedArgument \<Rightarrow> error + CppArgumentPack) \<Rightarrow> (GroupedArgument \<Rightarrow> error + CppArgumentPack) \<Rightarrow>
   (Return list \<Rightarrow> error + string) \<Rightarrow>
   FunctionSchema \<Rightarrow> bool \<Rightarrow> error + CppSignatureGroup" where
  "CppSignatureGroup_from_schema group_arguments argument argument_faithful returns_type func
       is_method =
     (case group_arguments func is_method of
        Inl e \<Rightarrow> Inl e
      | Inr grouped_arguments \<Rightarrow>
          (case (if list_ex is_TensorOptionsArguments grouped_arguments
                 then (case from_grouped_arguments argument argument_faithful returns_type
                              func grouped_arguments True of
                         Inl e \<Rightarrow> Inl e | Inr f \<Rightarrow> Inr (Some f))
                 else Inr None) of
             Inl e \<Rightarrow> Inl e
           | Inr faithful \<Rightarrow>
               (case from_grouped_arguments argument argument_faithful returns_type
                       func grouped_arguments False of
                  Inl e \<Rightarrow> Inl e
                | Inr s \<Rightarrow> Inr \<lparr>csg_func = func, signature = s,
                               faithful_signature = faithful\<rparr>)))"

section \<open>dispatcher types\<close>

record DispatcherArgument =
  da_type :: string
  da_name :: string
  da_argument :: "Argument + TensorOptionsArguments"

definition DispatcherArgument_str :: "DispatcherArgument \<Rightarrow> string" where
  "DispatcherArgument_str a = da_type a @ '' '' @ da_name a"

record DispatcherSignature =
  ds_func :: FunctionSchema
  ds_arguments :: "DispatcherArgument list"
  ds_returns_type :: string

text \<open>\<open>DispatcherSignature.defn\<close> asks \<open>native.name\<close> for the name when none is given.\<close>

definition DispatcherSignature_defn ::
  "(FunctionSchema \<Rightarrow> string) \<Rightarrow> DispatcherSignature \<Rightarrow> string option \<Rightarrow> string" where
  "DispatcherSignature_defn native_name s name =
     (let args_str = join '', '' (map DispatcherArgument_str (ds_arguments s));
          name' = (case name of None \<Rightarrow> native_name (ds_func s) | Some n \<Rightarrow> n)
      in ds_returns_type s @ '' '' @ name' @ ''('' @ args_str @ '')'')"

definition DispatcherSignature_type :: "DispatcherSignature \<Rightarrow> string" where
  "DispatcherSignature_type s =
     (let dispatcher_args_types_str = join '', '' (map da_type (ds_arguments s))
      in ds_returns_type s @ '' ('' @ dispatcher_args_types_str @ '')'')"


section \<open>native types\<close>

record NativeArgument =
  na_type :: string
  na_name :: string
  na_default :: "string option"
  na_argument :: "Argument + TensorOptionsArguments"

definition NativeArgument_str :: "NativeArgument \<Rightarrow> string" where
  "NativeArgument_str a = na_type a @ '' '' @ na_name a"

definition str_with_default :: "NativeArgument \<Rightarrow> string" where
  "str_with_default a =
     (let mb_default = (case na_default a of None \<Rightarrow> [] | Some d \<Rightarrow> ''='' @ d)
      in na_type a @ '' '' @ na_name a @ mb_default)"

record NativeSignature =
  ns_func :: FunctionSchema
  ns_arguments :: "NativeArgument list"
  ns_returns_type :: string

text \<open>\<open>NativeSignature.defn\<close> asks \<open>dispatcher.name\<close> for the name when none is given.\<close>

definition NativeSignature_defn ::
  "(FunctionSchema \<Rightarrow> string) \<Rightarrow> NativeSignature \<Rightarrow> string option \<Rightarrow> string" where
  "NativeSignature_defn dispatcher_name s name =
     (let args_str = join '', '' (map NativeArgument_str (ns_arguments s));
          name' = (case name of None \<Rightarrow> dispatcher_name (ns_func s) | Some n \<Rightarrow> n)
      in ns_returns_type s @ '' '' @ name' @ ''('' @ args_str @ '')'')"

definition NativeSignature_from_schema ::
  "(FunctionSchema \<Rightarrow> error + NativeArgument list) \<Rightarrow> (Return list \<Rightarrow> error + string) \<Rightarrow>
   FunctionSchema \<Rightarrow> error + NativeSignature" where
  "NativeSignature_from_schema arguments returns_type func =
     (case arguments func of
        Inl e \<Rightarrow> Inl e
      | Inr args \<Rightarrow>
          (case returns_type (fs_returns func) of
             Inl e \<Rightarrow> Inl e
           | Inr rt \<Rightarrow> Inr \<lparr>ns_func = func, ns_arguments = args, ns_returns_type = rt\<rparr>))"

section \<open>The helper modules, modelled from the spec\<close>

text \<open>
  Modelled from the spec: the mapping from a type descriptor to the type text of a target
  surface is not part of the sources at hand. It is the parameter \<open>render\<close>; a descriptor
  without a mapping is the failure \<open>UnrenderableType\<close>.
\<close>

definition render_type :: "(string \<Rightarrow> string option) \<Rightarrow> string \<Rightarrow> error + string" where
  "render_type render t = (case render t of None \<Rightarrow> Inl UnrenderableType | Some c \<Rightarrow> Inr c)"

text \<open>
  Modelled from the spec: \<open>cpp.group_arguments\<close> (the Argument Grouper of the spec) is not part
  of the sources at hand. Roles are read from the role tag. With the method flag set the first
  argument must carry the receiver role and is marked, otherwise the grouper fails with
  \<open>SchemaInvariantViolation\<close>. The resource-options bundle forms iff all four roles are present
  anywhere in the list; it takes the first argument of each role and stands where the first of
  them stood. The receiver is detected before the quadruple, the order in which sections 2
  and 4.1 of the spec name the two. With one to three roles present the grouper fails with
  \<open>PartialResourceOptionsGroup\<close>.
\<close>

definition find_role :: "role \<Rightarrow> Argument list \<Rightarrow> Argument option" where
  "find_role r args = find (\<lambda>a. arg_role a = r) args"

definition n_roles_present :: "Argument list \<Rightarrow> nat" where
  "n_roles_present args =
     length (filter (\<lambda>r. find_role r args \<noteq> None)
               [PrecisionKind, LayoutKind, DeviceKind, PinnedFlag])"

fun bundle_rest :: "TensorOptionsArguments \<Rightarrow> bool \<Rightarrow> Argument list \<Rightarrow> GroupedArgument list" where
  "bundle_rest b placed [] = []"
| "bundle_rest b placed (a # as) =
     (if a \<in> set (TensorOptionsArguments_all b)
      then (if placed then bundle_rest b True as else GTensorOptions b # bundle_rest b True as)
      else GArgument a # bundle_rest b placed as)"

definition bundle_arguments :: "Argument list \<Rightarrow> error + GroupedArgument list" where
  "bundle_arguments args =
     (case find_role PrecisionKind args of
        None \<Rightarrow>
          (if find_role LayoutKind args = None \<and> find_role DeviceKind args = None
              \<and> find_role PinnedFlag args = None
           then Inr (map GArgument args) else Inl PartialResourceOptionsGroup)
      | Some p \<Rightarrow>
          (case find_role LayoutKind args of
             None \<Rightarrow> Inl PartialResourceOptionsGroup
           | Some l \<Rightarrow>
               (case find_role DeviceKind args of
                  None \<Rightarrow> Inl PartialResourceOptionsGroup
                | Some d \<Rightarrow>
                    (case find_role PinnedFlag args of
                       None \<Rightarrow> Inl PartialResourceOptionsGroup
                     | Some m \<Rightarrow>
                         Inr (bundle_rest \<lparr>dtype = p, layout = l, device = d, pin_memory = m\<rparr>
                                False args)))))"

definition cpp_group_arguments :: "FunctionSchema \<Rightarrow> bool \<Rightarrow> error + GroupedArgument list" where
  "cpp_group_arguments func is_method =
     (if is_method
      then (case fs_arguments func of
              [] \<Rightarrow> Inl SchemaInvariantViolation
            | a # rest \<Rightarrow>
                (if arg_role a = Receiver
                 then (case bundle_arguments rest of
                         Inl e \<Rightarrow> Inl e
                       | Inr gs \<Rightarrow> Inr (GThis (ThisArgument a) # gs))
                 else Inl SchemaInvariantViolation))
      else bundle_arguments (fs_arguments func))"

text \<open>
  Modelled from the spec: \<open>cpp.argument\<close> and \<open>cpp.argument_faithful\<close> (the Front-Surface
  Builder's per-argument step) are not part of the sources at hand. A plain argument becomes a
  single pack with its rendered type, its name and its default; the receiver becomes a this
  pack with its rendered type. In default mode the bundle becomes one formal of the composite
  type, named \<open>options\<close>, defaulted (to \<open>{}\<close>) only if each of the four arguments has a default;
  in faithful mode it becomes a pack of its four formals.
\<close>

definition cpp_formal :: "(string \<Rightarrow> string option) \<Rightarrow> Argument \<Rightarrow> error + CppArgument" where
  "cpp_formal render a =
     (case render_type render (arg_type a) of
        Inl e \<Rightarrow> Inl e
      | Inr t \<Rightarrow> Inr \<lparr>ca_type = t, ca_name = arg_name a, ca_default = arg_default a,
                      ca_argument = Inl a\<rparr>)"

fun cpp_argument :: "(string \<Rightarrow> string option) \<Rightarrow> GroupedArgument \<Rightarrow> error + CppArgumentPack" where
  "cpp_argument render (GArgument a) =
     (case cpp_formal render a of Inl e \<Rightarrow> Inl e | Inr c \<Rightarrow> Inr (CppSingleArgumentPack c))"
| "cpp_argument render (GThis t) =
     (case render_type render (arg_type (this_argument t)) of
        Inl e \<Rightarrow> Inl e | Inr ty \<Rightarrow> Inr (CppThisArgumentPack t ty))"
| "cpp_argument render (GTensorOptions b) =
     Inr (CppSingleArgumentPack
       \<lparr>ca_type = ''ResourceOptions'', ca_name = ''options'',
        ca_default =
          (if arg_default (dtype b) \<noteq> None \<and> arg_default (layout b) \<noteq> None
              \<and> arg_default (device b) \<noteq> None \<and> arg_default (pin_memory b) \<noteq> None
           then Some ''{}'' else None),
        ca_argument = Inr b\<rparr>)"

fun cpp_argument_faithful ::
  "(string \<Rightarrow> string option) \<Rightarrow> GroupedArgument \<Rightarrow> error + CppArgumentPack" where
  "cpp_argument_faithful render (GTensorOptions b) =
     (case cpp_formal render (dtype b) of
        Inl e \<Rightarrow> Inl e
      | Inr dt \<Rightarrow>
          (case cpp_formal render (layout b) of
             Inl e \<Rightarrow> Inl e
           | Inr la \<Rightarrow>
               (case cpp_formal render (device b) of
                  Inl e \<Rightarrow> Inl e
                | Inr de \<Rightarrow>
                    (case cpp_formal render (pin_memory b) of
                       Inl e \<Rightarrow> Inl e
                     | Inr pm \<Rightarrow> Inr (CppTensorOptionsArgumentPack b dt la de pm)))))"
| "cpp_argument_faithful render a = cpp_argument render a"


definition native_arguments ::
  "(string \<Rightarrow> string option) \<Rightarrow> FunctionSchema \<Rightarrow> error + NativeArgument list" where
  "native_arguments render func =
     traverse (\<lambda>a. case render_type render (arg_type a) of
                      Inl e \<Rightarrow> Inl e
                    | Inr t \<Rightarrow> Inr \<lparr>na_type = t, na_name = arg_name a,
                                    na_default = arg_default a, na_argument = Inl a\<rparr>)
       (fs_arguments func)"

section \<open>Vocabulary of the statements\<close>


text \<open>The schema arguments that a grouped argument, a back-reference, a pack and a signature
  stand for.\<close>

fun grouped_arguments_of :: "GroupedArgument \<Rightarrow> Argument list" where
  "grouped_arguments_of (GArgument a) = [a]"
| "grouped_arguments_of (GTensorOptions b) = TensorOptionsArguments_all b"
| "grouped_arguments_of (GThis t) = [this_argument t]"

fun covered :: "Argument + TensorOptionsArguments \<Rightarrow> Argument list" where
  "covered (Inl a) = [a]"
| "covered (Inr b) = TensorOptionsArguments_all b"

fun pack_covered :: "CppArgumentPack \<Rightarrow> Argument list" where
  "pack_covered (CppThisArgumentPack t ty) = [this_argument t]"
| "pack_covered p = concat (map (\<lambda>a. covered (ca_argument a)) (explicit_arguments p))"

definition front_covered :: "CppSignature \<Rightarrow> Argument list" where
  "front_covered s = concat (map pack_covered (cs_argument_packs s))"

definition native_covered :: "NativeSignature \<Rightarrow> Argument list" where
  "native_covered s = concat (map (\<lambda>a. covered (na_argument a)) (ns_arguments s))"



text \<open>The names and types a signature shows: for the front surface the explicit formals
  together with the receiver of a this pack, for the implementation surface its formals.\<close>

fun receiver_of :: "CppArgumentPack \<Rightarrow> (string \<times> string) list" where
  "receiver_of (CppThisArgumentPack t ty) = [(arg_name (this_argument t), ty)]"
| "receiver_of _ = []"

definition pack_names_types :: "CppArgumentPack \<Rightarrow> (string \<times> string) list" where
  "pack_names_types p =
     receiver_of p @ map (\<lambda>a. (ca_name a, ca_type a)) (explicit_arguments p)"

definition front_names_types :: "CppSignature \<Rightarrow> (string \<times> string) list" where
  "front_names_types s = concat (map pack_names_types (cs_argument_packs s))"

definition native_names_types :: "NativeSignature \<Rightarrow> (string \<times> string) list" where
  "native_names_types s = map (\<lambda>a. (na_name a, na_type a)) (ns_arguments s)"

text \<open>The name of an argument with the rendering of its type (empty where there is none).\<close>

definition rendered :: "(string \<Rightarrow> string option) \<Rightarrow> Argument \<Rightarrow> string \<times> string" where
  "rendered render a = (arg_name a, case render (arg_type a) of None \<Rightarrow> [] | Some t \<Rightarrow> t)"

section \<open>The worked example of the spec and two smaller schemas\<close>

text \<open>
  \<open>foo(Value self, int n, PrecisionKind? precision=None, LayoutKind? layout=None,
  DeviceKind? device=None, bool? pinned=None) -> Value\<close> with the type mapping of the worked
  example; \<open>bar\<close> has no resource-options role, \<open>baz\<close> has two of the four.
\<close>

definition example_render :: "string \<Rightarrow> string option" where
  "example_render t =
     (if t = ''Value'' then Some ''Value''
      else if t = ''int'' then Some ''Int64''
      else if t = ''PrecisionKind?'' then Some ''Optional<PrecisionKind>''
      else if t = ''LayoutKind?'' then Some ''Optional<LayoutKind>''
      else if t = ''DeviceKind?'' then Some ''Optional<DeviceKind>''
      else if t = ''bool?'' then Some ''Optional<bool>''
      else None)"

definition example_returns_type :: "Return list \<Rightarrow> error + string" where
  "example_returns_type rs =
     (case rs of [r] \<Rightarrow> render_type example_render (ret_type r) | _ \<Rightarrow> Inl UnrenderableType)"

definition example_schema :: FunctionSchema where
  "example_schema =
     \<lparr>fs_name = ''foo'',
      fs_arguments =
        [\<lparr>arg_name = ''self'', arg_type = ''Value'', arg_default = None, arg_role = Receiver\<rparr>,
         \<lparr>arg_name = ''n'', arg_type = ''int'', arg_default = None, arg_role = Plain\<rparr>,
         \<lparr>arg_name = ''precision'', arg_type = ''PrecisionKind?'', arg_default = Some ''None'',
          arg_role = PrecisionKind\<rparr>,
         \<lparr>arg_name = ''layout'', arg_type = ''LayoutKind?'', arg_default = Some ''None'',
          arg_role = LayoutKind\<rparr>,
         \<lparr>arg_name = ''device'', arg_type = ''DeviceKind?'', arg_default = Some ''None'',
          arg_role = DeviceKind\<rparr>,
         \<lparr>arg_name = ''pinned'', arg_type = ''bool?'', arg_default = Some ''None'',
          arg_role = PinnedFlag\<rparr>],
      fs_returns = [Return ''Value'']\<rparr>"

definition plain_schema :: FunctionSchema where
  "plain_schema =
     \<lparr>fs_name = ''bar'',
      fs_arguments =
        [\<lparr>arg_name = ''n'', arg_type = ''int'', arg_default = Some ''1'', arg_role = Plain\<rparr>],
      fs_returns = [Return ''Value'']\<rparr>"


definition example_front :: "FunctionSchema \<Rightarrow> bool \<Rightarrow> error + CppSignatureGroup" where
  "example_front func is_method =
     CppSignatureGroup_from_schema cpp_group_arguments (cpp_argument example_render)
       (cpp_argument_faithful example_render) example_returns_type func is_method"


definition example_native :: "FunctionSchema \<Rightarrow> error + NativeSignature" where
  "example_native func =
     NativeSignature_from_schema (native_arguments example_render) example_returns_type func"


definition example_signature :: CppSignature where
  "example_signature =
     \<lparr>cs_func = example_schema,
      cs_argument_packs =
        [CppThisArgumentPack
           (ThisArgument \<lparr>arg_name = ''self'', arg_type = ''Value'', arg_default = None,
                           arg_role = Receiver\<rparr>) ''Value'',
         CppSingleArgumentPack
           \<lparr>ca_type = ''Int64'', ca_name = ''n'', ca_default = None,
            ca_argument = Inl \<lparr>arg_name = ''n'', arg_type = ''int'', arg_default = None,
                                 arg_role = Plain\<rparr>\<rparr>,
         CppSingleArgumentPack
           \<lparr>ca_type = ''bool'', ca_name = ''flag'', ca_default = Some ''false'',
            ca_argument = Inl \<lparr>arg_name = ''flag'', arg_type = ''bool'',
                                 arg_default = Some ''False'', arg_role = Plain\<rparr>\<rparr>,
         CppSingleArgumentPack
           \<lparr>ca_type = ''ResourceOptions'', ca_name = ''options'', ca_default = Some ''{}'',
            ca_argument = Inl \<lparr>arg_name = ''options'', arg_type = ''ResourceOptions'',
                                 arg_default = Some ''{}'', arg_role = Plain\<rparr>\<rparr>],
      cs_returns_type = ''Value''\<rparr>"

text \<open>An implementation signature whose only formal stores the default \<open>1\<close>, and a dispatch
  signature with three formals.\<close>

definition example_native_signature :: NativeSignature where
  "example_native_signature =
     \<lparr>ns_func = plain_schema,
      ns_arguments =
        [\<lparr>na_type = ''Int64'', na_name = ''n'', na_default = Some ''1'',
          na_argument = Inl \<lparr>arg_name = ''n'', arg_type = ''int'', arg_default = Some ''1'',
                               arg_role = Plain\<rparr>\<rparr>],
      ns_returns_type = ''Value''\<rparr>"

definition example_dispatcher_signature :: DispatcherSignature where
  "example_dispatcher_signature =
     \<lparr>ds_func = plain_schema,
      ds_arguments =
        [\<lparr>da_type = ''Int64'', da_name = ''n'',
          da_argument = Inl \<lparr>arg_name = ''n'', arg_type = ''int'', arg_default = Some ''1'',
                               arg_role = Plain\<rparr>\<rparr>,
         \<lparr>da_type = ''Optional<bool>'', da_name = ''pinned'',
          da_argument = Inl \<lparr>arg_name = ''pinned'', arg_type = ''bool?'',
                               arg_default = Some ''None'', arg_role = Plain\<rparr>\<rparr>,
         \<lparr>da_type = ''Value'', da_name = ''other'',
          da_argument = Inl \<lparr>arg_name = ''other'', arg_type = ''Value'',
                               arg_default = None, arg_role = Plain\<rparr>\<rparr>],
      ds_returns_type = ''Value''\<rparr>"

section \<open>Rendering and unpacking\<close>

lemma join_Cons: "join sep (x # xs) = x @ concat (map (\<lambda>y. sep @ y) xs)"
  by (induction xs arbitrary: x) simp_all



lemma explicit_arguments_no_default:
  "explicit_arguments (no_default p) = map CppArgument_no_default (explicit_arguments p)"
  by (cases p) simp_all

lemma arguments_no_default:
  "CppSignature_arguments (s\<lparr>cs_argument_packs := map no_default (cs_argument_packs s)\<rparr>)
   = map CppArgument_no_default (CppSignature_arguments s)"
  by (simp add: CppSignature_arguments_def map_concat explicit_arguments_no_default comp_def)

lemma CppArgument_str_fun:
  "CppArgument_str = (\<lambda>a. ca_type a @ '' '' @ ca_name a @
                          (case ca_default a of None \<Rightarrow> [] | Some d \<Rightarrow> ''='' @ d))"
  by (simp add: fun_eq_iff CppArgument_str_def)

lemma CppArgument_str_no_default_fun:
  "CppArgument_str_no_default = (\<lambda>a. ca_type a @ '' '' @ ca_name a)"
  by (simp add: fun_eq_iff CppArgument_str_no_default_def)

lemma DispatcherArgument_str_fun:
  "DispatcherArgument_str = (\<lambda>a. da_type a @ '' '' @ da_name a)"
  by (simp add: fun_eq_iff DispatcherArgument_str_def)

lemma NativeArgument_str_fun:
  "NativeArgument_str = (\<lambda>a. na_type a @ '' '' @ na_name a)"
  by (simp add: fun_eq_iff NativeArgument_str_def)


lemma no_default_explicit_none:
  "a \<in> set (explicit_arguments (no_default p)) \<Longrightarrow> ca_default a = None"
  by (cases p) (auto simp: CppArgument_no_default_def)

section \<open>Comprehensions that may raise\<close>

lemma traverse_Inr_map:
  "traverse (\<lambda>a. case g a of Inl e \<Rightarrow> Inl e | Inr p \<Rightarrow> Inr (h p)) xs = Inr ys
   \<Longrightarrow> \<exists>ps. traverse g xs = Inr ps \<and> ys = map h ps"
  by (induction xs arbitrary: ys) (auto split: sum.splits)


lemma traverse_concat:
  "traverse f xs = Inr ys \<Longrightarrow> (\<And>x y. x \<in> set xs \<Longrightarrow> f x = Inr y \<Longrightarrow> h y = k x)
   \<Longrightarrow> concat (map h ys) = concat (map k xs)"
proof (induction xs arbitrary: ys)
  case Nil
  then show ?case by simp
next
  case (Cons x xs)
  from Cons.prems(1) obtain y ys' where
    y: "f x = Inr y" and ys': "traverse f xs = Inr ys'" and ys: "ys = y # ys'"
    by (auto split: sum.splits)
  have "concat (map h ys') = concat (map k xs)"
    using Cons.IH [OF ys'] Cons.prems(2) by simp
  moreover have "h y = k x" using Cons.prems(2) [of x y] y by simp
  ultimately show ?case using ys by simp
qed

lemma traverse_map:
  "traverse f xs = Inr ys \<Longrightarrow> (\<And>x y. x \<in> set xs \<Longrightarrow> f x = Inr y \<Longrightarrow> h y = k x)
   \<Longrightarrow> map h ys = map k xs"
proof (induction xs arbitrary: ys)
  case Nil
  then show ?case by simp
next
  case (Cons x xs)
  from Cons.prems(1) obtain y ys' where
    y: "f x = Inr y" and ys': "traverse f xs = Inr ys'" and ys: "ys = y # ys'"
    by (auto split: sum.splits)
  have "map h ys' = map k xs"
    using Cons.IH [OF ys'] Cons.prems(2) by simp
  moreover have "h y = k x" using Cons.prems(2) [of x y] y by simp
  ultimately show ?case using ys by simp
qed

lemma traverse_all_Inr:
  "traverse f xs = Inr ys \<Longrightarrow> x \<in> set xs \<Longrightarrow> \<exists>y. f x = Inr y"
  by (induction xs arbitrary: ys) (auto split: sum.splits)


section \<open>Building the front signatures\<close>





lemma from_schema_Inr_faithful:
  assumes "CppSignatureGroup_from_schema grp argument argument_faithful returns_type func is_method
           = Inr g"
  shows "\<exists>gs. grp func is_method = Inr gs
           \<and> from_grouped_arguments argument argument_faithful returns_type func gs False
               = Inr (signature g)
           \<and> (if list_ex is_TensorOptionsArguments gs
               then \<exists>f. faithful_signature g = Some f
                      \<and> from_grouped_arguments argument argument_faithful returns_type func gs
                            True = Inr f
               else faithful_signature g = None)"
  using assms
  by (auto simp: CppSignatureGroup_from_schema_def split: sum.splits if_splits)

section \<open>The grouper of the spec\<close>

lemma no_bundle_in_plain: "\<not> list_ex is_TensorOptionsArguments (map GArgument args)"
  by (induction args) simp_all

lemma no_bundle_iff: "\<not> list_ex is_TensorOptionsArguments gs
  \<longleftrightarrow> (\<forall>x \<in> set gs. \<not> is_TensorOptionsArguments x)"
  by (simp add: list_ex_iff)

lemma bundle_in_bundle_rest:
  "list_ex is_TensorOptionsArguments (bundle_rest b placed args)
   = (\<not> placed \<and> set args \<inter> set (TensorOptionsArguments_all b) \<noteq> {})"
  by (induction args arbitrary: placed) auto

lemma find_role_mem: "find_role r args = Some a \<Longrightarrow> a \<in> set args"
  by (auto simp: find_role_def find_Some_iff)

lemma bundle_arguments_none:
  "n_roles_present args = 0 \<Longrightarrow> bundle_arguments args = Inr (map GArgument args)"
  by (auto simp: n_roles_present_def bundle_arguments_def split: option.splits if_splits)

lemma bundle_arguments_partial:
  "n_roles_present args \<in> {1, 2, 3} \<Longrightarrow> bundle_arguments args = Inl PartialResourceOptionsGroup"
  by (auto simp: n_roles_present_def bundle_arguments_def split: option.splits if_splits)

lemma bundle_arguments_all:
  "n_roles_present args = 4 \<Longrightarrow>
   \<exists>p l d m. find_role PrecisionKind args = Some p \<and> find_role LayoutKind args = Some l
     \<and> find_role DeviceKind args = Some d \<and> find_role PinnedFlag args = Some m
     \<and> bundle_arguments args =
         Inr (bundle_rest \<lparr>dtype = p, layout = l, device = d, pin_memory = m\<rparr> False args)"
  by (auto simp: n_roles_present_def bundle_arguments_def split: option.splits if_splits)

lemma n_roles_present_le: "n_roles_present args \<le> 4"
  by (simp add: n_roles_present_def)

lemma n_roles_cases:
  "n_roles_present args = 0 \<or> n_roles_present args \<in> {1, 2, 3} \<or> n_roles_present args = 4"
  using n_roles_present_le [of args] by auto

lemma bundle_arguments_bundle_iff:
  "bundle_arguments args = Inr gs \<Longrightarrow>
   list_ex is_TensorOptionsArguments gs = (n_roles_present args = 4)"
  using n_roles_cases [of args]
  apply (elim disjE)
    apply (auto simp: bundle_arguments_none no_bundle_in_plain bundle_arguments_partial)[2]
  apply (frule bundle_arguments_all)
  apply (auto simp: bundle_in_bundle_rest TensorOptionsArguments_all_def dest: find_role_mem)
  done

lemma n_roles_present_receiver:
  "arg_role a = Receiver \<Longrightarrow> n_roles_present (a # rest) = n_roles_present rest"
  by (simp add: n_roles_present_def find_role_def)

lemma group_arguments_bundle_iff:
  "cpp_group_arguments func is_method = Inr gs \<Longrightarrow>
   list_ex is_TensorOptionsArguments gs = (n_roles_present (fs_arguments func) = 4)"
  by (auto simp: cpp_group_arguments_def n_roles_present_receiver
      split: if_splits list.splits sum.splits dest: bundle_arguments_bundle_iff)





lemma covered_bundle_rest:
  "set (concat (map grouped_arguments_of (bundle_rest b placed args)))
   = (set args - set (TensorOptionsArguments_all b))
     \<union> (if \<not> placed \<and> set args \<inter> set (TensorOptionsArguments_all b) \<noteq> {}
        then set (TensorOptionsArguments_all b) else {})"
  by (induction args arbitrary: placed) auto

lemma bundle_arguments_cover:
  assumes "bundle_arguments args = Inr gs"
  shows "set (concat (map grouped_arguments_of gs)) = set args"
proof -
  consider "n_roles_present args = 0" | "n_roles_present args \<in> {1, 2, 3}"
    | "n_roles_present args = 4"
    using n_roles_cases [of args] by auto
  then show ?thesis
  proof cases
    case 1
    then show ?thesis using assms by (auto simp: bundle_arguments_none)
  next
    case 2
    then show ?thesis using assms by (simp add: bundle_arguments_partial)
  next
    case 3
    from bundle_arguments_all [OF 3] obtain p l d m where
      f: "find_role PrecisionKind args = Some p" "find_role LayoutKind args = Some l"
         "find_role DeviceKind args = Some d" "find_role PinnedFlag args = Some m"
      and b: "bundle_arguments args =
         Inr (bundle_rest \<lparr>dtype = p, layout = l, device = d, pin_memory = m\<rparr> False args)"
      by blast
    have sub: "set (TensorOptionsArguments_all
                 \<lparr>dtype = p, layout = l, device = d, pin_memory = m\<rparr>) \<subseteq> set args"
      using f by (auto simp: TensorOptionsArguments_all_def dest: find_role_mem)
    have ne: "set (TensorOptionsArguments_all
                 \<lparr>dtype = p, layout = l, device = d, pin_memory = m\<rparr>) \<noteq> {}"
      by (simp add: TensorOptionsArguments_all_def)
    from b assms have gs: "gs = bundle_rest \<lparr>dtype = p, layout = l, device = d, pin_memory = m\<rparr>
      False args" by simp
    have "(set args - set (TensorOptionsArguments_all
                 \<lparr>dtype = p, layout = l, device = d, pin_memory = m\<rparr>))
     \<union> (if \<not> False \<and> set args \<inter> set (TensorOptionsArguments_all
                 \<lparr>dtype = p, layout = l, device = d, pin_memory = m\<rparr>) \<noteq> {}
        then set (TensorOptionsArguments_all
                 \<lparr>dtype = p, layout = l, device = d, pin_memory = m\<rparr>) else {}) = set args"
      using sub ne by auto
    then show ?thesis unfolding gs covered_bundle_rest .
  qed
qed

lemma group_arguments_cover:
  "cpp_group_arguments func is_method = Inr gs \<Longrightarrow>
   set (concat (map grouped_arguments_of gs)) = set (fs_arguments func)"
proof (cases is_method)
  case False
  assume "cpp_group_arguments func is_method = Inr gs"
  with False show ?thesis
    using bundle_arguments_cover [of "fs_arguments func" gs]
    by (simp add: cpp_group_arguments_def)
next
  case True
  assume "cpp_group_arguments func is_method = Inr gs"
  with True obtain a rest gs' where
    a: "fs_arguments func = a # rest" and g: "bundle_arguments rest = Inr gs'"
    and gs: "gs = GThis (ThisArgument a) # gs'"
    by (auto simp: cpp_group_arguments_def split: if_splits list.splits sum.splits)
  from bundle_arguments_cover [OF g] show ?thesis using a gs by simp
qed

section \<open>The per-argument builders of the spec\<close>

lemma render_type_Inr: "render_type render t = Inr c \<longleftrightarrow> render t = Some c"
  by (simp add: render_type_def split: option.splits)

lemma cpp_formal_Inr:
  "cpp_formal render a = Inr c \<Longrightarrow>
   render (arg_type a) \<noteq> None \<and> (ca_name c, ca_type c) = rendered render a
   \<and> ca_argument c = Inl a \<and> ca_default c = arg_default a"
  by (auto simp: cpp_formal_def rendered_def render_type_Inr split: sum.splits)


lemma default_pack:
  "cpp_argument render x = Inr p \<Longrightarrow>
   pack_covered p = grouped_arguments_of x
   \<and> (\<not> is_TensorOptionsArguments x \<longrightarrow>
        pack_names_types p = map (rendered render) (grouped_arguments_of x)
        \<and> (\<forall>a \<in> set (grouped_arguments_of x). render (arg_type a) \<noteq> None))"
  by (cases x)
    (auto simp: pack_names_types_def rendered_def render_type_Inr
      split: sum.splits dest!: cpp_formal_Inr)

lemma faithful_pack:
  "cpp_argument_faithful render x = Inr p \<Longrightarrow>
   pack_covered (no_default p) = grouped_arguments_of x
   \<and> pack_names_types (no_default p) = map (rendered render) (grouped_arguments_of x)
   \<and> (\<forall>a \<in> set (grouped_arguments_of x). render (arg_type a) \<noteq> None)"
  by (cases x)
    (auto simp: pack_names_types_def rendered_def render_type_Inr TensorOptionsArguments_all_def
      CppArgument_no_default_def split: sum.splits dest!: cpp_formal_Inr)





lemma faithful_signature_shape:
  assumes "from_grouped_arguments (cpp_argument render) (cpp_argument_faithful render)
             returns_type func gs True = Inr f"
  shows "front_names_types f = map (rendered render) (concat (map grouped_arguments_of gs))"
    and "front_covered f = concat (map grouped_arguments_of gs)"
    and "\<forall>a \<in> set (concat (map grouped_arguments_of gs)). render (arg_type a) \<noteq> None"
proof -
  let ?step = "\<lambda>a. case cpp_argument_faithful render a of
                       Inl e \<Rightarrow> Inl e | Inr p \<Rightarrow> Inr (no_default p)"
  from assms have t: "traverse ?step gs = Inr (cs_argument_packs f)"
    by (auto simp: from_grouped_arguments_def split: sum.splits)
  have step: "\<And>x y. ?step x = Inr y \<Longrightarrow>
      pack_covered y = grouped_arguments_of x
      \<and> pack_names_types y = map (rendered render) (grouped_arguments_of x)
      \<and> (\<forall>a \<in> set (grouped_arguments_of x). render (arg_type a) \<noteq> None)"
    by (auto split: sum.splits dest!: faithful_pack)
  have "concat (map pack_names_types (cs_argument_packs f))
        = concat (map (\<lambda>x. map (rendered render) (grouped_arguments_of x)) gs)"
    by (rule traverse_concat [OF t]) (simp add: step)
  then show "front_names_types f = map (rendered render) (concat (map grouped_arguments_of gs))"
    by (simp add: front_names_types_def map_concat comp_def)
  have "concat (map pack_covered (cs_argument_packs f)) = concat (map grouped_arguments_of gs)"
    by (rule traverse_concat [OF t]) (simp add: step)
  then show "front_covered f = concat (map grouped_arguments_of gs)"
    by (simp add: front_covered_def)
  show "\<forall>a \<in> set (concat (map grouped_arguments_of gs)). render (arg_type a) \<noteq> None"
  proof
    fix a assume "a \<in> set (concat (map grouped_arguments_of gs))"
    then obtain x where x: "x \<in> set gs" "a \<in> set (grouped_arguments_of x)" by auto
    from traverse_all_Inr [OF t x(1)] obtain y where "?step x = Inr y" by blast
    from step [OF this] x(2) show "render (arg_type a) \<noteq> None" by blast
  qed
qed

lemma default_signature_covered:
  assumes "from_grouped_arguments (cpp_argument render) (cpp_argument_faithful render)
             returns_type func gs False = Inr s"
  shows "front_covered s = concat (map grouped_arguments_of gs)"
proof -
  from assms have t: "traverse (cpp_argument render) gs = Inr (cs_argument_packs s)"
    by (auto simp: from_grouped_arguments_def split: sum.splits)
  have "concat (map pack_covered (cs_argument_packs s)) = concat (map grouped_arguments_of gs)"
    by (rule traverse_concat [OF t]) (simp add: default_pack)
  then show ?thesis by (simp add: front_covered_def)
qed

lemma default_signature_shape:
  assumes "from_grouped_arguments (cpp_argument render) (cpp_argument_faithful render)
             returns_type func gs False = Inr s"
    and nb: "\<not> list_ex is_TensorOptionsArguments gs"
  shows "front_names_types s = map (rendered render) (concat (map grouped_arguments_of gs))"
    and "\<forall>a \<in> set (concat (map grouped_arguments_of gs)). render (arg_type a) \<noteq> None"
proof -
  from assms have t: "traverse (cpp_argument render) gs = Inr (cs_argument_packs s)"
    by (auto simp: from_grouped_arguments_def split: sum.splits)
  have "concat (map pack_names_types (cs_argument_packs s))
        = concat (map (\<lambda>x. map (rendered render) (grouped_arguments_of x)) gs)"
    using nb by (intro traverse_concat [OF t]) (simp add: default_pack no_bundle_iff)
  then show "front_names_types s = map (rendered render) (concat (map grouped_arguments_of gs))"
    by (simp add: front_names_types_def map_concat comp_def)
  show "\<forall>a \<in> set (concat (map grouped_arguments_of gs)). render (arg_type a) \<noteq> None"
  proof
    fix a assume "a \<in> set (concat (map grouped_arguments_of gs))"
    then obtain x where x: "x \<in> set gs" "a \<in> set (grouped_arguments_of x)" by auto
    from traverse_all_Inr [OF t x(1)] obtain y where "cpp_argument render x = Inr y" by blast
    from default_pack [OF this] x nb show "render (arg_type a) \<noteq> None"
      by (auto simp: no_bundle_iff)
  qed
qed

lemma native_arguments_shape:
  assumes "native_arguments render func = Inr nas"
  shows "map (\<lambda>a. (na_name a, na_type a)) nas = map (rendered render) (fs_arguments func)"
    and "map na_argument nas = map Inl (fs_arguments func)"
    and "map na_default nas = map arg_default (fs_arguments func)"
  using assms unfolding native_arguments_def
  by (rule traverse_map; auto simp: rendered_def render_type_Inr split: sum.splits)+



lemma covered_flat: "concat (map covered (map Inl args)) = args"
  by (induction args) simp_all

section \<open>Existence of the faithful signature\<close>




section \<open>Default stripping in the faithful signature\<close>

text \<open>
  C2. Whatever \<open>cpp.argument_faithful\<close> returns for the grouped arguments, the signature that
  \<open>CppSignature._from_grouped_arguments\<close> builds with \<open>faithful=True\<close> has the packs
  \<open>no_default p\<close> of the packs \<open>p\<close> returned, and every one of its explicit arguments has the
  default \<open>None\<close>, the four formals of a tensor-options pack included.
\<close>

theorem faithful_signature_no_defaults:
  assumes "from_grouped_arguments argument argument_faithful returns_type func arguments True
           = Inr s"
  shows "(\<exists>ps. traverse argument_faithful arguments = Inr ps
               \<and> cs_argument_packs s = map no_default ps)
         \<and> (\<forall>a \<in> set (CppSignature_arguments s). ca_default a = None)"
proof -
  from assms obtain qs where
    qs: "traverse (\<lambda>a. case argument_faithful a of Inl e \<Rightarrow> Inl e | Inr p \<Rightarrow> Inr (no_default p))
           arguments = Inr qs"
    and s: "cs_argument_packs s = qs"
    by (auto simp: from_grouped_arguments_def split: sum.splits)
  from traverse_Inr_map [OF qs] obtain ps where
    ps: "traverse argument_faithful arguments = Inr ps" "qs = map no_default ps" by blast
  have "\<forall>a \<in> set (CppSignature_arguments s). ca_default a = None"
    using s ps(2) by (auto simp: CppSignature_arguments_def dest: no_default_explicit_none)
  with ps s show ?thesis by simp
qed

text \<open>
  At the worked example the faithful signature has the five explicit arguments \<open>n\<close>,
  \<open>precision\<close>, \<open>layout\<close>, \<open>device\<close>, \<open>pinned\<close>, four of them from the bundle and defaulted in
  the schema; the only default among them is \<open>None\<close>.
\<close>

theorem faithful_signature_no_defaults_witness:
  "\<not> isl (from_grouped_arguments (cpp_argument example_render)
            (cpp_argument_faithful example_render) example_returns_type example_schema
            (projr (cpp_group_arguments example_schema True)) True)
   \<and> map ca_name (CppSignature_arguments (projr (from_grouped_arguments
          (cpp_argument example_render) (cpp_argument_faithful example_render)
          example_returns_type example_schema
          (projr (cpp_group_arguments example_schema True)) True)))
       = [''n'', ''precision'', ''layout'', ''device'', ''pinned'']
   \<and> set (map ca_default (CppSignature_arguments (projr (from_grouped_arguments
          (cpp_argument example_render) (cpp_argument_faithful example_render)
          example_returns_type example_schema
          (projr (cpp_group_arguments example_schema True)) True)))) = {None}"
proof -
  let ?r = "from_grouped_arguments (cpp_argument example_render)
            (cpp_argument_faithful example_render) example_returns_type example_schema
            (projr (cpp_group_arguments example_schema True)) True"
  have r: "\<not> isl ?r" by code_simp
  then have e: "?r = Inr (projr ?r)" by simp
  have names: "map ca_name (CppSignature_arguments (projr ?r))
               = [''n'', ''precision'', ''layout'', ''device'', ''pinned'']" by code_simp
  then have ne: "CppSignature_arguments (projr ?r) \<noteq> []" by auto
  have "\<forall>a \<in> set (CppSignature_arguments (projr ?r)). ca_default a = None"
    using faithful_signature_no_defaults [OF e] by blast
  with ne have "set (map ca_default (CppSignature_arguments (projr ?r))) = {None}"
    by (cases "CppSignature_arguments (projr ?r)") auto
  with r names show ?thesis by blast
qed

section \<open>Receiver elision\<close>



section \<open>Completeness of the front surface\<close>

text \<open>
  The claim that the names and types of the default front signature (receiver included) are
  those of the implementation signature fails at the worked example: with all four roles
  present the default signature shows the one composite formal \<open>ResourceOptions options\<close>
  where the implementation signature shows the four flat formals.
\<close>

theorem front_arguments_complete_counterexample:
  "\<not> isl (example_front example_schema True)
   \<and> \<not> isl (example_native example_schema)
   \<and> n_roles_present (fs_arguments example_schema) = 4
   \<and> front_names_types (signature (projr (example_front example_schema True)))
       = [(''self'', ''Value''), (''n'', ''Int64''), (''options'', ''ResourceOptions'')]
   \<and> native_names_types (projr (example_native example_schema))
       = [(''self'', ''Value''), (''n'', ''Int64''), (''precision'', ''Optional<PrecisionKind>''),
          (''layout'', ''Optional<LayoutKind>''), (''device'', ''Optional<DeviceKind>''),
          (''pinned'', ''Optional<bool>'')]
   \<and> set (front_names_types (signature (projr (example_front example_schema True))))
       \<noteq> set (native_names_types (projr (example_native example_schema)))"
proof -
  have a: "\<not> isl (example_front example_schema True)" by code_simp
  have b: "\<not> isl (example_native example_schema)" by code_simp
  have c: "n_roles_present (fs_arguments example_schema) = 4" by code_simp
  have d: "front_names_types (signature (projr (example_front example_schema True)))
       = [(''self'', ''Value''), (''n'', ''Int64''), (''options'', ''ResourceOptions'')]"
    by code_simp
  have e: "native_names_types (projr (example_native example_schema))
       = [(''self'', ''Value''), (''n'', ''Int64''), (''precision'', ''Optional<PrecisionKind>''),
          (''layout'', ''Optional<LayoutKind>''), (''device'', ''Optional<DeviceKind>''),
          (''pinned'', ''Optional<bool>'')]"
    by code_simp
  have i: "(''options'', ''ResourceOptions'')
       \<in> set (front_names_types (signature (projr (example_front example_schema True))))"
    unfolding d by simp
  have o: "(''options'', ''ResourceOptions'')
       \<notin> set (native_names_types (projr (example_native example_schema)))"
    unfolding e by simp
  from i o have "set (front_names_types (signature (projr (example_front example_schema True))))
       \<noteq> set (native_names_types (projr (example_native example_schema)))"
    by metis
  with a b c d e show ?thesis by blast
qed

text \<open>
  C4, amended. For a schema whose front signatures and implementation signature are built
  (grouper and builders of the spec): with no role present the names and types of the default
  signature's explicit arguments, together with the receiver, are exactly those of the
  implementation signature; with all four roles present this holds of the faithful signature;
  and in both cases the schema arguments that the default signature stands for (through the
  back-references of its formals, a bundle standing for its four arguments, and the receiver)
  are exactly those of the implementation signature.
\<close>

theorem front_arguments_complete:
  assumes g: "CppSignatureGroup_from_schema cpp_group_arguments (cpp_argument render)
             (cpp_argument_faithful render) returns_type func is_method = Inr g"
    and n: "NativeSignature_from_schema (native_arguments render) native_returns_type func
            = Inr n"
  shows "(n_roles_present (fs_arguments func) = 0 \<longrightarrow>
           set (front_names_types (signature g)) = set (native_names_types n))
       \<and> (n_roles_present (fs_arguments func) = 4 \<longrightarrow>
           (\<exists>f. faithful_signature g = Some f
              \<and> set (front_names_types f) = set (native_names_types n)))
       \<and> set (front_covered (signature g)) = set (native_covered n)"
proof -
  from from_schema_Inr_faithful [OF g] obtain gs where
    gs: "cpp_group_arguments func is_method = Inr gs"
    and s: "from_grouped_arguments (cpp_argument render) (cpp_argument_faithful render)
              returns_type func gs False = Inr (signature g)"
    and f: "if list_ex is_TensorOptionsArguments gs
            then \<exists>f. faithful_signature g = Some f
                   \<and> from_grouped_arguments (cpp_argument render) (cpp_argument_faithful render)
                         returns_type func gs True = Inr f
            else faithful_signature g = None"
    by blast
  from n have nas: "native_arguments render func = Inr (ns_arguments n)"
    by (auto simp: NativeSignature_from_schema_def split: sum.splits)
  have nt: "set (native_names_types n) = rendered render ` set (fs_arguments func)"
    by (simp only: native_names_types_def native_arguments_shape(1) [OF nas] set_map)
  have "concat (map covered (map na_argument (ns_arguments n))) = fs_arguments func"
    unfolding native_arguments_shape(2) [OF nas] by (rule covered_flat)
  then have nc: "native_covered n = fs_arguments func"
    by (simp add: native_covered_def comp_def)
  have cov: "set (concat (map grouped_arguments_of gs)) = set (fs_arguments func)"
    by (rule group_arguments_cover [OF gs])
  have bnd: "list_ex is_TensorOptionsArguments gs = (n_roles_present (fs_arguments func) = 4)"
    by (rule group_arguments_bundle_iff [OF gs])
  have c0: "set (front_names_types (signature g)) = set (native_names_types n)"
    if "n_roles_present (fs_arguments func) = 0"
  proof -
    from that bnd have "\<not> list_ex is_TensorOptionsArguments gs" by simp
    from default_signature_shape(1) [OF s this]
    have "set (front_names_types (signature g))
          = rendered render ` set (concat (map grouped_arguments_of gs))"
      by (simp only: set_map)
    then show ?thesis unfolding nt cov .
  qed
  have c4: "\<exists>f. faithful_signature g = Some f
              \<and> set (front_names_types f) = set (native_names_types n)"
    if "n_roles_present (fs_arguments func) = 4"
  proof -
    from that bnd f obtain f' where f': "faithful_signature g = Some f'"
      "from_grouped_arguments (cpp_argument render) (cpp_argument_faithful render)
         returns_type func gs True = Inr f'" by auto
    from faithful_signature_shape(1) [OF f'(2)]
    have "set (front_names_types f')
          = rendered render ` set (concat (map grouped_arguments_of gs))"
      by (simp only: set_map)
    then have "set (front_names_types f') = set (native_names_types n)"
      unfolding nt cov .
    with f'(1) show ?thesis by blast
  qed
  have "set (front_covered (signature g)) = set (native_covered n)"
    unfolding default_signature_covered [OF s] nc by (rule cov)
  with c0 c4 show ?thesis by blast
qed

text \<open>
  Both cases: the worked example (four roles, faithful signature) and \<open>bar\<close> (no role, default
  signature).
\<close>

theorem front_arguments_complete_witness:
  "\<not> isl (example_front example_schema True)
   \<and> \<not> isl (example_native example_schema)
   \<and> n_roles_present (fs_arguments example_schema) = 4
   \<and> faithful_signature (projr (example_front example_schema True)) \<noteq> None
   \<and> set (front_names_types (the (faithful_signature (projr (example_front example_schema True)))))
       = set (native_names_types (projr (example_native example_schema)))
   \<and> set (front_covered (signature (projr (example_front example_schema True))))
       = set (native_covered (projr (example_native example_schema)))
   \<and> \<not> isl (example_front plain_schema False)
   \<and> \<not> isl (example_native plain_schema)
   \<and> n_roles_present (fs_arguments plain_schema) = 0
   \<and> set (front_names_types (signature (projr (example_front plain_schema False))))
       = set (native_names_types (projr (example_native plain_schema)))"
proof -
  have r4: "\<not> isl (example_front example_schema True)" by code_simp
  have m4: "\<not> isl (example_native example_schema)" by code_simp
  have n4: "n_roles_present (fs_arguments example_schema) = 4" by code_simp
  have r0: "\<not> isl (example_front plain_schema False)" by code_simp
  have m0: "\<not> isl (example_native plain_schema)" by code_simp
  have n0: "n_roles_present (fs_arguments plain_schema) = 0" by code_simp
  from r4 have e4: "CppSignatureGroup_from_schema cpp_group_arguments
      (cpp_argument example_render) (cpp_argument_faithful example_render) example_returns_type
      example_schema True = Inr (projr (example_front example_schema True))"
    by (simp add: example_front_def)
  from m4 have en4: "NativeSignature_from_schema (native_arguments example_render)
      example_returns_type example_schema = Inr (projr (example_native example_schema))"
    by (simp add: example_native_def)
  from r0 have e0: "CppSignatureGroup_from_schema cpp_group_arguments
      (cpp_argument example_render) (cpp_argument_faithful example_render) example_returns_type
      plain_schema False = Inr (projr (example_front plain_schema False))"
    by (simp add: example_front_def)
  from m0 have en0: "NativeSignature_from_schema (native_arguments example_render)
      example_returns_type plain_schema = Inr (projr (example_native plain_schema))"
    by (simp add: example_native_def)
  from front_arguments_complete [OF e4 en4] n4
  have f4: "faithful_signature (projr (example_front example_schema True)) \<noteq> None"
    "set (front_names_types (the (faithful_signature (projr (example_front example_schema True)))))
       = set (native_names_types (projr (example_native example_schema)))"
    "set (front_covered (signature (projr (example_front example_schema True))))
       = set (native_covered (projr (example_native example_schema)))"
    by auto
  from front_arguments_complete [OF e0 en0] n0
  have f0: "set (front_names_types (signature (projr (example_front plain_schema False))))
       = set (native_names_types (projr (example_native plain_schema)))"
    by auto
  from r4 m4 n4 f4 r0 m0 n0 f0 show ?thesis by blast
qed

section \<open>The dispatch surface has no defaults\<close>

text \<open>
  C5. A \<open>DispatcherArgument\<close> has no default field; its string is its type, a space and its
  name, whatever the schema argument behind it (whose default is therefore never seen); and
  \<open>DispatcherSignature.defn\<close> renders the return type, the name and the parenthesised,
  comma-separated list of these strings, the same for any back-references.
\<close>

theorem dispatcher_never_renders_default:
  "DispatcherArgument_str d = da_type d @ '' '' @ da_name d
   \<and> DispatcherArgument_str (d\<lparr>da_argument := x\<rparr>) = DispatcherArgument_str d
   \<and> DispatcherSignature_defn native_name s name =
       ds_returns_type s @ '' '' @
       (case name of None \<Rightarrow> native_name (ds_func s) | Some n \<Rightarrow> n) @ ''('' @
       join '', '' (map (\<lambda>a. da_type a @ '' '' @ da_name a) (ds_arguments s)) @ '')''
   \<and> DispatcherSignature_defn native_name
        (s\<lparr>ds_arguments := map (\<lambda>a. a\<lparr>da_argument := f a\<rparr>) (ds_arguments s)\<rparr>) name
       = DispatcherSignature_defn native_name s name"
  by (cases name) (simp_all add: DispatcherSignature_defn_def DispatcherArgument_str_fun comp_def)

section \<open>Declaration and definition text of a front signature\<close>

text \<open>
  C6. \<open>decl()\<close> renders the return type, a space, the name and, in parentheses, the formals
  \<open>type name=default\<close> separated by a comma and a space, the \<open>=default\<close> omitted where there is
  none; \<open>defn()\<close> without name and with the empty prefix renders the same list with every
  default omitted, which is the declaration of the signature with \<open>no_default\<close> applied to
  every pack; an explicit name is substituted, and a prefix is put before the name derived
  from the schema. The last four conjuncts are the four renderings of a signature with a this
  pack and three formals.
\<close>

theorem decl_defn_render:
  "decl cpp_name s =
     cs_returns_type s @ '' '' @ cpp_name (cs_func s) @ ''('' @
     (case CppSignature_arguments s of
        [] \<Rightarrow> []
      | a # as \<Rightarrow>
          (ca_type a @ '' '' @ ca_name a @
             (case ca_default a of None \<Rightarrow> [] | Some d \<Rightarrow> ''='' @ d)) @
          concat (map (\<lambda>b. '', '' @ ca_type b @ '' '' @ ca_name b @
                          (case ca_default b of None \<Rightarrow> [] | Some d \<Rightarrow> ''='' @ d)) as))
     @ '')''
   \<and> defn cpp_name s None [] =
     cs_returns_type s @ '' '' @ cpp_name (cs_func s) @ ''('' @
     (case CppSignature_arguments s of
        [] \<Rightarrow> []
      | a # as \<Rightarrow>
          (ca_type a @ '' '' @ ca_name a) @
          concat (map (\<lambda>b. '', '' @ ca_type b @ '' '' @ ca_name b) as))
     @ '')''
   \<and> defn cpp_name s None [] =
     decl cpp_name (s\<lparr>cs_argument_packs := map no_default (cs_argument_packs s)\<rparr>)
   \<and> defn cpp_name s (Some n) prefix =
     cs_returns_type s @ '' '' @ n @ ''('' @
     (case CppSignature_arguments s of
        [] \<Rightarrow> []
      | a # as \<Rightarrow>
          (ca_type a @ '' '' @ ca_name a) @
          concat (map (\<lambda>b. '', '' @ ca_type b @ '' '' @ ca_name b) as))
     @ '')''
   \<and> defn cpp_name s None prefix =
     cs_returns_type s @ '' '' @ (prefix @ cpp_name (cs_func s)) @ ''('' @
     (case CppSignature_arguments s of
        [] \<Rightarrow> []
      | a # as \<Rightarrow>
          (ca_type a @ '' '' @ ca_name a) @
          concat (map (\<lambda>b. '', '' @ ca_type b @ '' '' @ ca_name b) as))
     @ '')''
   \<and> decl fs_name example_signature
       = ''Value foo(Int64 n, bool flag=false, ResourceOptions options={})''
   \<and> defn fs_name example_signature None []
       = ''Value foo(Int64 n, bool flag, ResourceOptions options)''
   \<and> defn fs_name example_signature (Some ''bar'') ''at::''
       = ''Value bar(Int64 n, bool flag, ResourceOptions options)''
   \<and> defn fs_name example_signature None ''at::''
       = ''Value at::foo(Int64 n, bool flag, ResourceOptions options)''"
proof -
  have gen: "decl cpp_name s =
     cs_returns_type s @ '' '' @ cpp_name (cs_func s) @ ''('' @
     (case CppSignature_arguments s of
        [] \<Rightarrow> []
      | a # as \<Rightarrow>
          (ca_type a @ '' '' @ ca_name a @
             (case ca_default a of None \<Rightarrow> [] | Some d \<Rightarrow> ''='' @ d)) @
          concat (map (\<lambda>b. '', '' @ ca_type b @ '' '' @ ca_name b @
                          (case ca_default b of None \<Rightarrow> [] | Some d \<Rightarrow> ''='' @ d)) as))
     @ '')''"
    by (cases "CppSignature_arguments s")
      (simp_all add: decl_def join_Cons CppArgument_str_fun comp_def)
  have nd: "\<And>name'. cs_returns_type s @ '' '' @ name' @ ''('' @
       join '', '' (map CppArgument_str_no_default (CppSignature_arguments s)) @ '')''
     = cs_returns_type s @ '' '' @ name' @ ''('' @
     (case CppSignature_arguments s of
        [] \<Rightarrow> []
      | a # as \<Rightarrow>
          (ca_type a @ '' '' @ ca_name a) @
          concat (map (\<lambda>b. '', '' @ ca_type b @ '' '' @ ca_name b) as))
     @ '')''"
    by (cases "CppSignature_arguments s")
      (simp_all add: join_Cons CppArgument_str_no_default_fun comp_def)
  have d0: "defn cpp_name s None [] =
     decl cpp_name (s\<lparr>cs_argument_packs := map no_default (cs_argument_packs s)\<rparr>)"
    by (simp add: decl_def defn_def arguments_no_default CppArgument_str_fun
        CppArgument_str_no_default_fun comp_def CppArgument_no_default_def)
  have ex: "decl fs_name example_signature
       = ''Value foo(Int64 n, bool flag=false, ResourceOptions options={})''"
    "defn fs_name example_signature None []
       = ''Value foo(Int64 n, bool flag, ResourceOptions options)''"
    "defn fs_name example_signature (Some ''bar'') ''at::''
       = ''Value bar(Int64 n, bool flag, ResourceOptions options)''"
    "defn fs_name example_signature None ''at::''
       = ''Value at::foo(Int64 n, bool flag, ResourceOptions options)''"
    by code_simp+
  show ?thesis
    using gen nd [of "cpp_name (cs_func s)"] nd [of n] nd [of "prefix @ cpp_name (cs_func s)"]
      d0 ex
    by (simp add: defn_def)
qed

section \<open>The function type of a dispatcher signature\<close>

text \<open>
  The claim that \<open>type()\<close> is the return type immediately followed by the parenthesised
  argument types fails: the code puts a space between them, \<open>Value (Int64, Optional<bool>,
  Value)\<close> and not \<open>Value(Int64, Optional<bool>, Value)\<close>.
\<close>

theorem dispatcher_type_counterexample:
  "DispatcherSignature_type example_dispatcher_signature = ''Value (Int64, Optional<bool>, Value)''
   \<and> DispatcherSignature_type example_dispatcher_signature
       \<noteq> ''Value(Int64, Optional<bool>, Value)''"
  by code_simp

text \<open>
  C7, amended. \<open>DispatcherSignature.type\<close> returns the return type, one space, and in
  parentheses the argument types, each after the first preceded by a comma and a space; so
  for the dispatch signature of three formals.
\<close>

theorem dispatcher_type_render:
  "DispatcherSignature_type s =
     ds_returns_type s @ '' ('' @
     (case ds_arguments s of
        [] \<Rightarrow> []
      | a # as \<Rightarrow> da_type a @ concat (map (\<lambda>b. '', '' @ da_type b) as))
     @ '')''
   \<and> DispatcherSignature_type example_dispatcher_signature
       = ''Value (Int64, Optional<bool>, Value)''"
proof -
  have "DispatcherSignature_type s =
     ds_returns_type s @ '' ('' @
     (case ds_arguments s of
        [] \<Rightarrow> []
      | a # as \<Rightarrow> da_type a @ concat (map (\<lambda>b. '', '' @ da_type b) as))
     @ '')''"
    by (cases "ds_arguments s") (simp_all add: DispatcherSignature_type_def join_Cons comp_def)
  moreover have "DispatcherSignature_type example_dispatcher_signature
       = ''Value (Int64, Optional<bool>, Value)''"
    by code_simp
  ultimately show ?thesis by blast
qed

section \<open>Definition text of the implementation surface\<close>

text \<open>
  The claim that the rendered definition of a \<open>NativeSignature\<close> is available with the stored
  defaults attached fails: \<open>NativeSignature.defn\<close> is the only renderer of the definition, and
  for a formal that stores the default \<open>1\<close> it renders \<open>Value bar(Int64 n)\<close>; only the formal
  itself renders \<open>Int64 n=1\<close>.
\<close>

theorem native_definition_forms_counterexample:
  "na_default (hd (ns_arguments example_native_signature)) = Some ''1''
   \<and> str_with_default (hd (ns_arguments example_native_signature)) = ''Int64 n=1''
   \<and> NativeSignature_defn fs_name example_native_signature None = ''Value bar(Int64 n)''
   \<and> NativeSignature_defn fs_name example_native_signature None \<noteq> ''Value bar(Int64 n=1)''"
  by (simp add: NativeSignature_defn_def NativeArgument_str_def str_with_default_def
      example_native_signature_def plain_schema_def)

text \<open>
  C8, amended. A native formal built from a schema (by \<open>native.arguments\<close> of the spec) retains
  the argument's original default, and \<open>str_with_default\<close> renders the formal with the stored
  default attached; \<open>NativeSignature.defn\<close> renders the definition with all defaults omitted
  only, the same whatever defaults the formals store.
\<close>

theorem native_definition_forms:
  "str_with_default a =
     NativeArgument_str a @ (case na_default a of None \<Rightarrow> [] | Some d \<Rightarrow> ''='' @ d)
   \<and> NativeSignature_defn dispatcher_name s name =
       ns_returns_type s @ '' '' @
       (case name of None \<Rightarrow> dispatcher_name (ns_func s) | Some n \<Rightarrow> n) @ ''('' @
       join '', '' (map (\<lambda>a. na_type a @ '' '' @ na_name a) (ns_arguments s)) @ '')''
   \<and> NativeSignature_defn dispatcher_name
        (s\<lparr>ns_arguments := map (\<lambda>a. a\<lparr>na_default := None\<rparr>) (ns_arguments s)\<rparr>) name
       = NativeSignature_defn dispatcher_name s name
   \<and> (NativeSignature_from_schema (native_arguments render) native_returns_type func = Inr n
       \<longrightarrow> map na_default (ns_arguments n) = map arg_default (fs_arguments func))"
proof (intro conjI impI)
  assume "NativeSignature_from_schema (native_arguments render) native_returns_type func = Inr n"
  then have "native_arguments render func = Inr (ns_arguments n)"
    by (auto simp: NativeSignature_from_schema_def split: sum.splits)
  then show "map na_default (ns_arguments n) = map arg_default (fs_arguments func)"
    by (rule native_arguments_shape(3))
qed (cases name; simp add: str_with_default_def NativeArgument_str_def NativeSignature_defn_def
       NativeArgument_str_fun comp_def)+

text \<open>
  The native formals of the worked example keep the defaults of the schema.
\<close>

theorem native_definition_forms_witness:
  "\<not> isl (example_native example_schema)
   \<and> map na_default (ns_arguments (projr (example_native example_schema)))
       = [None, None, Some ''None'', Some ''None'', Some ''None'', Some ''None'']"
proof -
  have r: "\<not> isl (example_native example_schema)" by code_simp
  then have e: "NativeSignature_from_schema (native_arguments example_render)
      example_returns_type example_schema = Inr (projr (example_native example_schema))"
    by (simp add: example_native_def)
  have "map na_default (ns_arguments (projr (example_native example_schema)))
        = map arg_default (fs_arguments example_schema)"
    using native_definition_forms [THEN conjunct2, THEN conjunct2, THEN conjunct2, rule_format,
        OF e] .
  then show ?thesis using r by (simp add: example_schema_def)
qed

section \<open>Default stripping on a single formal\<close>

text \<open>
  C9. \<open>CppArgument.no_default\<close> returns a value whose default is \<open>None\<close> and whose type, name
  and argument back-reference are those of the original; being a function of its argument it
  leaves the original as it was, and applying it twice is the same as applying it once.
\<close>

theorem CppArgument_no_default_frame:
  "ca_default (CppArgument_no_default a) = None
   \<and> ca_type (CppArgument_no_default a) = ca_type a
   \<and> ca_name (CppArgument_no_default a) = ca_name a
   \<and> ca_argument (CppArgument_no_default a) = ca_argument a
   \<and> CppArgument_no_default a = a\<lparr>ca_default := None\<rparr>
   \<and> CppArgument_no_default (CppArgument_no_default a) = CppArgument_no_default a"
  by (simp add: CppArgument_no_default_def)

section \<open>An explicit name overrides the prefix\<close>

text \<open>
  C10. With an explicit name \<open>CppSignature.defn\<close> renders that name verbatim, whatever the
  prefix; the prefix is put before the schema-derived name only when no name is given.
\<close>

theorem defn_explicit_name_ignores_prefix:
  "defn cpp_name s (Some n) prefix = defn cpp_name s (Some n) prefix'
   \<and> defn cpp_name s (Some n) prefix =
       cs_returns_type s @ '' '' @ n @ ''('' @
       join '', '' (map CppArgument_str_no_default (CppSignature_arguments s)) @ '')''
   \<and> defn cpp_name s None prefix =
       cs_returns_type s @ '' '' @ prefix @ cpp_name (cs_func s) @ ''('' @
       join '', '' (map CppArgument_str_no_default (CppSignature_arguments s)) @ '')''"
  by (simp add: defn_def)

end
